theory Spec2Isabelle
  imports Complex_Main "HOL-Library.Sublist"
begin

section \<open>Characters and strings\<close>

text \<open>
  Lines are modelled as ASCII strings. Python floats are modelled as exact rationals:
  every arithmetic step of the source (\<open>-\<close>, \<open>*\<close>, \<open>+\<close>, comparison) is carried out without
  rounding. The character classes are those of Python's \<open>re\<close> on ASCII text:
  \<open>\s\<close> is the set of characters for which \<open>str.isspace\<close> holds, \<open>\d\<close> the decimal digits,
  \<open>\w\<close> letters, digits and the underscore.
\<close>

definition is_space :: "char \<Rightarrow> bool" where
  "is_space c = (c \<in> set [CHR 0x09, CHR 0x0A, CHR 0x0B, CHR 0x0C, CHR 0x0D,
                            CHR 0x1C, CHR 0x1D, CHR 0x1E, CHR 0x1F, CHR '' ''])"

definition is_digit :: "char \<Rightarrow> bool" where
  "is_digit c = (c \<in> set ''0123456789'')"

definition is_upper :: "char \<Rightarrow> bool" where
  "is_upper c = (c \<in> set ''ABCDEFGHIJKLMNOPQRSTUVWXYZ'')"

definition is_lower :: "char \<Rightarrow> bool" where
  "is_lower c = (c \<in> set ''abcdefghijklmnopqrstuvwxyz'')"

definition is_word :: "char \<Rightarrow> bool" where
  "is_word c = (is_digit c \<or> is_upper c \<or> is_lower c \<or> c = CHR ''_'')"

definition lower_char :: "char \<Rightarrow> char" where
  "lower_char c =
     (case map_of (zip ''ABCDEFGHIJKLMNOPQRSTUVWXYZ'' ''abcdefghijklmnopqrstuvwxyz'') c of
        Some d \<Rightarrow> d
      | None \<Rightarrow> c)"

definition lower :: "string \<Rightarrow> string" where
  "lower s = map lower_char s"

definition lstrip :: "string \<Rightarrow> string" where
  "lstrip s = dropWhile is_space s"

definition rstrip :: "string \<Rightarrow> string" where
  "rstrip s = rev (dropWhile is_space (rev s))"

definition strip :: "string \<Rightarrow> string" where
  "strip s = rstrip (lstrip s)"

definition rstrip_chars :: "char \<Rightarrow> string \<Rightarrow> string" where
  \<comment> \<open>\<open>s.rstrip(c)\<close> for a one-character argument\<close>
  "rstrip_chars c s = rev (dropWhile (\<lambda>x. x = c) (rev s))"

definition endswith_nl :: "string \<Rightarrow> bool" where
  "endswith_nl s = (s \<noteq> [] \<and> last s = CHR 0x0A)"

definition replace_char :: "char \<Rightarrow> char \<Rightarrow> string \<Rightarrow> string" where
  "replace_char a b s = map (\<lambda>c. if c = a then b else c) s"

fun collapse_ws_from :: "bool \<Rightarrow> string \<Rightarrow> string" where
  \<comment> \<open>\<open>in_run\<close>: the character before was whitespace, its run already gave its one space\<close>
  "collapse_ws_from in_run [] = []"
| "collapse_ws_from in_run (c # cs) =
     (if is_space c then
        (if in_run then collapse_ws_from True cs else CHR '' '' # collapse_ws_from True cs)
      else c # collapse_ws_from False cs)"

definition collapse_ws :: "string \<Rightarrow> string" where
  \<comment> \<open>\<open>re.sub(r"\s+", " ", s)\<close>: every maximal run of whitespace becomes one space\<close>
  "collapse_ws s = collapse_ws_from False s"

definition partition_semi :: "string \<Rightarrow> string \<times> string \<times> string" where
  \<comment> \<open>\<open>line.partition(";")\<close>: text before the first semicolon, the separator, the rest\<close>
  "partition_semi s =
     (let a = takeWhile (\<lambda>c. c \<noteq> CHR '';'') s; r = drop (length a) s
      in case r of [] \<Rightarrow> (a, [], []) | c # t \<Rightarrow> (a, [c], t))"

definition code_part_of :: "string \<Rightarrow> string" where
  "code_part_of s = fst (partition_semi s)"

section \<open>Pattern recognisers\<close>

text \<open>
  Each compiled pattern of the source is a function of its own. \<open>match\<close> patterns are
  anchored at the start of the line; the two \<open>search\<close> patterns scan from the left and
  return the first hit. Greedy quantifiers and the backtracking they force are written out.
\<close>

definition ci_prefix :: "string \<Rightarrow> string \<Rightarrow> bool" where
  \<comment> \<open>a literal under \<open>re.IGNORECASE\<close> at the start of \<open>s\<close>\<close>
  "ci_prefix p s = (length p \<le> length s \<and> lower (take (length p) s) = lower p)"

definition word_end :: "string \<Rightarrow> bool" where
  \<comment> \<open>\<open>\b\<close> directly after a word character: the text ends or goes on with a non-word character\<close>
  "word_end s = (case s of [] \<Rightarrow> True | c # _ \<Rightarrow> \<not> is_word c)"

definition cmd_match :: "string \<Rightarrow> string \<Rightarrow> bool" where
  \<comment> \<open>\<open>^\s*LIT\b\<close> with \<open>re.IGNORECASE\<close>, for a literal that ends in a word character\<close>
  "cmd_match lit s = (let t = lstrip s in ci_prefix lit t \<and> word_end (drop (length lit) t))"

definition MOVE_RE :: "string \<Rightarrow> bool" where
  \<comment> \<open>\<open>^\s*G0?1\b\<close>\<close>
  "MOVE_RE s = (cmd_match ''G01'' s \<or> cmd_match ''G1'' s)"

definition FAN_OFF_RE :: "string \<Rightarrow> bool" where
  "FAN_OFF_RE s = cmd_match ''M107'' s"

definition M82_RE :: "string \<Rightarrow> bool" where
  "M82_RE s = cmd_match ''M82'' s"

definition M83_RE :: "string \<Rightarrow> bool" where
  "M83_RE s = cmd_match ''M83'' s"

definition G92_RE :: "string \<Rightarrow> bool" where
  "G92_RE s = cmd_match ''G92'' s"

definition LAYER_CHANGE_RE :: "string \<Rightarrow> bool" where
  \<comment> \<open>\<open>^\s*;(?:BEFORE_)?LAYER_CHANGE\b\<close>\<close>
  "LAYER_CHANGE_RE s = (cmd_match '';BEFORE_LAYER_CHANGE'' s \<or> cmd_match '';LAYER_CHANGE'' s)"

definition digits_of :: "string \<Rightarrow> string" where
  \<comment> \<open>greedy \<open>\d*\<close>\<close>
  "digits_of s = takeWhile is_digit s"

definition uint_token :: "string \<Rightarrow> string option" where
  \<comment> \<open>\<open>\d+\<close>\<close>
  "uint_token s = (if digits_of s = [] then None else Some (digits_of s))"

definition int_token :: "string \<Rightarrow> string option" where
  \<comment> \<open>\<open>-?\d+\<close>\<close>
  "int_token s =
     (case s of
        [] \<Rightarrow> None
      | c # r \<Rightarrow>
          if c = CHR ''-'' then map_option (\<lambda>d. c # d) (uint_token r) else uint_token s)"

definition temp_token :: "string \<Rightarrow> string option" where
  \<comment> \<open>\<open>-?\d+(?:\.\d+)?\<close>\<close>
  "temp_token s =
     (case int_token s of
        None \<Rightarrow> None
      | Some i \<Rightarrow>
          (case drop (length i) s of
             [] \<Rightarrow> Some i
           | c # r \<Rightarrow>
               if c = CHR ''.'' \<and> digits_of r \<noteq> [] then Some (i @ c # digits_of r)
               else Some i))"

definition mantissa_token :: "string \<Rightarrow> string option" where
  \<comment> \<open>\<open>\d*\.?\d+\<close>: all leading digits, then a point only when a digit follows it\<close>
  "mantissa_token s =
     (let d = digits_of s
      in case drop (length d) s of
           [] \<Rightarrow> (if d = [] then None else Some d)
         | c # r \<Rightarrow>
             if c = CHR ''.'' \<and> digits_of r \<noteq> [] then Some (d @ c # digits_of r)
             else if d = [] then None else Some d)"

definition signed_token :: "string \<Rightarrow> string option" where
  \<comment> \<open>\<open>[-+]?\d*\.?\d+\<close>\<close>
  "signed_token s =
     (case s of
        [] \<Rightarrow> None
      | c # r \<Rightarrow>
          if c = CHR ''-'' \<or> c = CHR ''+'' then map_option (\<lambda>m. c # m) (mantissa_token r)
          else mantissa_token s)"

definition exponent_token :: "string \<Rightarrow> string" where
  \<comment> \<open>\<open>(?:[eE][-+]?\d+)?\<close>: the text it consumes, empty when it does not apply\<close>
  "exponent_token s =
     (case s of
        [] \<Rightarrow> []
      | c # r \<Rightarrow>
          if lower_char c = CHR ''e'' then
            (case r of
               [] \<Rightarrow> []
             | g # r' \<Rightarrow>
                 if g = CHR ''-'' \<or> g = CHR ''+'' then
                   (if digits_of r' = [] then [] else c # g # digits_of r')
                 else if digits_of r = [] then [] else c # digits_of r)
          else [])"

definition float_token :: "string \<Rightarrow> string option" where
  \<comment> \<open>\<open>[-+]?\d*\.?\d+(?:[eE][-+]?\d+)?\<close>\<close>
  "float_token s =
     (case signed_token s of
        None \<Rightarrow> None
      | Some m \<Rightarrow> Some (m @ exponent_token (drop (length m) s)))"

fun search_word :: "(char \<Rightarrow> bool) \<Rightarrow> (string \<Rightarrow> string option) \<Rightarrow> bool \<Rightarrow> nat \<Rightarrow> string
                    \<Rightarrow> (nat \<times> string) option" where
  \<comment> \<open>\<open>re.search\<close> of \<open>\bL(token)\<close>: the leftmost position where the letter stands at a word
      boundary and the token follows; the result is the start of group 1 and its text.
      \<open>prev\<close> tells whether the character before is a word character, \<open>i\<close> is the index.\<close>
  "search_word letter tok prev i [] = None"
| "search_word letter tok prev i (c # cs) =
     (if \<not> prev \<and> letter c then
        (case tok cs of
           Some t \<Rightarrow> Some (Suc i, t)
         | None \<Rightarrow> search_word letter tok (is_word c) (Suc i) cs)
      else search_word letter tok (is_word c) (Suc i) cs)"

definition E_WORD_RE :: "string \<Rightarrow> (nat \<times> string) option" where
  \<comment> \<open>\<open>(?i)\bE([-+]?\d*\.?\d+(?:[eE][-+]?\d+)?)\<close>\<close>
  "E_WORD_RE s = search_word (\<lambda>c. lower_char c = CHR ''e'') float_token False 0 s"

definition Z_WORD_RE :: "string \<Rightarrow> (nat \<times> string) option" where
  \<comment> \<open>\<open>\bZ([-+]?\d*\.?\d+)\<close>, case-sensitive\<close>
  "Z_WORD_RE s = search_word (\<lambda>c. c = CHR ''Z'') signed_token False 0 s"

fun last_S_word :: "(string \<Rightarrow> string option) \<Rightarrow> bool \<Rightarrow> string \<Rightarrow> string option" where
  \<comment> \<open>\<open>[^;]*\bS(token)\<close>: the greedy \<open>[^;]*\<close> gives way from the right, so the hit is the
      rightmost \<open>S\<close> at a word boundary that the token follows\<close>
  "last_S_word tok prev [] = None"
| "last_S_word tok prev (c # cs) =
     (case last_S_word tok (is_word c) cs of
        Some t \<Rightarrow> Some t
      | None \<Rightarrow> if \<not> prev \<and> lower_char c = CHR ''s'' then tok cs else None)"

definition S_arg :: "string \<Rightarrow> (string \<Rightarrow> string option) \<Rightarrow> string \<Rightarrow> string option" where
  \<comment> \<open>\<open>^\s*LIT\b[^;]*\bS(token)\<close>\<close>
  "S_arg lit tok s =
     (if cmd_match lit s then
        last_S_word tok True (takeWhile (\<lambda>c. c \<noteq> CHR '';'') (drop (length lit) (lstrip s)))
      else None)"

definition TEMP_CMD_RE :: "string \<Rightarrow> string option" where
  \<comment> \<open>\<open>^\s*M10(?:4|9)\b[^;]*\bS(-?\d+(?:\.\d+)?)\<close>\<close>
  "TEMP_CMD_RE s =
     (if cmd_match ''M104'' s then S_arg ''M104'' temp_token s else S_arg ''M109'' temp_token s)"

definition FAN_ON_RE :: "string \<Rightarrow> string option" where
  \<comment> \<open>\<open>^\s*M106\b[^;]*\bS(\d+)\<close>\<close>
  "FAN_ON_RE s = S_arg ''M106'' uint_token s"

definition LAYER_NUM_RE :: "string \<Rightarrow> string option" where
  \<comment> \<open>\<open>^\s*;LAYER:\s*(-?\d+)\<close>\<close>
  "LAYER_NUM_RE s =
     (let t = lstrip s
      in if ci_prefix '';LAYER:'' t then int_token (lstrip (drop 7 t)) else None)"

definition LAYER_WORD_RE :: "string \<Rightarrow> string option" where
  \<comment> \<open>\<open>^\s*;\s*layer\s+(-?\d+)\b\<close>\<close>
  "LAYER_WORD_RE s =
     (let t = lstrip s
      in if ci_prefix '';'' t then
           (let u = lstrip (drop 1 t)
            in if ci_prefix ''layer'' u then
                 (let v = drop 5 u; w = lstrip v
                  in if w = v then None
                     else (case int_token w of
                             None \<Rightarrow> None
                           | Some n \<Rightarrow> if word_end (drop (length n) w) then Some n else None))
               else None)
         else None)"

definition dot_plus_end :: "string \<Rightarrow> string option" where
  \<comment> \<open>\<open>(.+)$\<close> at the start of \<open>t\<close>: a non-empty run without newline that reaches the
      end of the text or the newline that ends it\<close>
  "dot_plus_end t =
     (let body = (if endswith_nl t then butlast t else t)
      in if body \<noteq> [] \<and> CHR 0x0A \<notin> set body then Some body else None)"

fun type_group :: "nat \<Rightarrow> string \<Rightarrow> string option" where
  \<comment> \<open>\<open>\s*(.+)$\<close>: the greedy \<open>\s*\<close> first takes all \<open>k\<close> leading blanks and gives them
      back one at a time until the group fits\<close>
  "type_group 0 r = dot_plus_end r"
| "type_group (Suc k) r =
     (case dot_plus_end (drop (Suc k) r) of
        Some g \<Rightarrow> Some g
      | None \<Rightarrow> type_group k r)"

definition TYPE_PREFIX_RE :: "string \<Rightarrow> string option" where
  \<comment> \<open>\<open>^\s*;\s*TYPE\s*:\s*(.+)$\<close>\<close>
  "TYPE_PREFIX_RE s =
     (let t = lstrip s
      in if ci_prefix '';'' t then
           (let u = lstrip (drop 1 t)
            in if ci_prefix ''TYPE'' u then
                 (let v = lstrip (drop 4 u)
                  in if ci_prefix '':'' v then
                       (let r = drop 1 v in type_group (length (takeWhile is_space r)) r)
                     else None)
               else None)
         else None)"

section \<open>Numbers and their text\<close>

function show_digits :: "int \<Rightarrow> string" where
  \<comment> \<open>the decimal digits of a number that is not negative\<close>
  "show_digits n =
     (if n < 10 then [''0123456789'' ! nat n]
      else show_digits (n div 10) @ [''0123456789'' ! nat (n mod 10)])"
  by pat_completeness auto
termination
  by (relation "measure nat") auto

declare show_digits.simps [simp del]

definition str_int :: "int \<Rightarrow> string" where
  \<comment> \<open>\<open>str(i)\<close> for an integer\<close>
  "str_int i = (if i < 0 then CHR ''-'' # show_digits (- i) else show_digits i)"

definition py_round :: "rat \<Rightarrow> int" where
  \<comment> \<open>\<open>round(x)\<close>: to the nearest integer, a tie to the even one\<close>
  "py_round q =
     (let f = \<lfloor>q\<rfloor>; r = q - of_int f
      in if r < 1 / 2 then f else if 1 / 2 < r then f + 1 else if even f then f else f + 1)"

definition clamp :: "int \<Rightarrow> int \<Rightarrow> int \<Rightarrow> int" where
  "clamp v lo hi = max lo (min hi v)"

definition pct_to_pwm :: "rat \<Rightarrow> int" where
  "pct_to_pwm pct = clamp (py_round ((pct / 100) * 255)) 0 255"

definition fixed_str :: "rat \<Rightarrow> nat \<Rightarrow> string" where
  \<comment> \<open>\<open>f"{value:.{decimals}f}"\<close>: sign, integer part and exactly \<open>decimals\<close> fractional digits\<close>
  "fixed_str v d =
     (let n = py_round (\<bar>v\<bar> * 10 ^ d);
          fs = show_digits (n mod 10 ^ d)
      in (if v < 0 then ''-'' else [])
         @ show_digits (n div 10 ^ d)
         @ (if d = 0 then [] else CHR ''.'' # replicate (d - length fs) (CHR ''0'') @ fs))"

definition fmt_float :: "rat \<Rightarrow> nat \<Rightarrow> string" where
  "fmt_float v d =
     (let s = fixed_str v d;
          s' = (if CHR ''.'' \<in> set s then rstrip_chars (CHR ''.'') (rstrip_chars (CHR ''0'') s)
                else s)
      in if s' = [] then ''0'' else s')"

definition str_float :: "rat \<Rightarrow> string" where
  \<comment> \<open>\<open>str(t)\<close> of a float that is not a whole number, in positional notation with up to 17
      fractional digits (Python changes to exponent notation below \<open>1e-4\<close>)\<close>
  "str_float t = fmt_float t 17"

definition fmt_temp :: "rat \<Rightarrow> string" where
  "fmt_temp t = (if of_int \<lfloor>t\<rfloor> = t then str_int \<lfloor>t\<rfloor> else str_float t)"

definition digit_val :: "char \<Rightarrow> int" where
  "digit_val c = of_char c - 48"

definition int_of_digits :: "string \<Rightarrow> int" where
  "int_of_digits ds = foldl (\<lambda>a c. 10 * a + digit_val c) 0 ds"

definition split_sign :: "string \<Rightarrow> bool \<times> string" where
  "split_sign s =
     (case s of
        [] \<Rightarrow> (False, [])
      | c # r \<Rightarrow> if c = CHR ''-'' then (True, r) else if c = CHR ''+'' then (False, r)
                 else (False, s))"

definition int_of_string :: "string \<Rightarrow> int option" where
  \<comment> \<open>\<open>int(tok)\<close> on a token \<open>-?\d+\<close>; \<open>None\<close> is \<open>ValueError\<close>, which CPython (3.11 and
      later) also raises for more than 4300 digits\<close>
  "int_of_string s =
     (let (neg, ds) = split_sign s
      in if ds = [] \<or> \<not> list_all is_digit ds \<or> 4300 < length ds then None
         else Some (if neg then - int_of_digits ds else int_of_digits ds))"

definition float_of_string :: "string \<Rightarrow> rat option" where
  \<comment> \<open>\<open>float(tok)\<close> on a token \<open>[-+]?\d*\.?\d*(?:[eE][-+]?\d+)?\<close> with a digit in the
      mantissa; \<open>None\<close> is \<open>ValueError\<close>\<close>
  "float_of_string s =
     (let (neg, r) = split_sign s;
          ip = digits_of r;
          r1 = drop (length ip) r;
          fp = (case r1 of [] \<Rightarrow> [] | c # t \<Rightarrow> if c = CHR ''.'' then digits_of t else []);
          r2 = (case r1 of [] \<Rightarrow> [] | c # t \<Rightarrow> if c = CHR ''.'' then drop (length fp) t else r1);
          m = (of_int (int_of_digits (ip @ fp)) :: rat) / 10 ^ length fp;
          v = (if neg then - m else m)
      in if ip @ fp = [] then None
         else (case r2 of
                 [] \<Rightarrow> Some v
               | c # t \<Rightarrow>
                   if lower_char c = CHR ''e'' then
                     (let (eneg, ds) = split_sign t
                      in if ds = [] \<or> \<not> list_all is_digit ds then None
                         else Some (if eneg then v / 10 ^ nat (int_of_digits ds)
                                    else v * 10 ^ nat (int_of_digits ds)))
                   else None))"

section \<open>Feature names\<close>

definition FEATURE_SYNONYMS :: "(string \<times> string list) list" where
  "FEATURE_SYNONYMS =
     [(''external_perimeter'', [''external perimeter'', ''external perimeters'', ''external wall'',
                                ''outer wall'', ''wall-outer'', ''wall outer'']),
      (''internal_perimeter'', [''perimeter'', ''perimeters'', ''inner wall'', ''wall-inner'',
                                ''wall inner'']),
      (''overhang_perimeter'', [''overhang perimeter'', ''overhang wall'', ''wall-overhang'',
                                ''overhang-wall'']),
      (''infill'', [''infill'', ''internal infill'']),
      (''solid_infill'', [''solid infill'', ''solid-infill'']),
      (''top_surface'', [''top solid infill'', ''skin top'', ''top surface'', ''top surfaces'',
                         ''topskin'']),
      (''bottom_surface'', [''bottom solid infill'', ''skin bottom'', ''bottom surface'',
                            ''bottom surfaces'', ''bottomskin'']),
      (''bridge'', [''bridge'', ''bridges'', ''bridge infill'', ''bridge-infill'']),
      (''support_interface'', [''support material interface'', ''support interface'']),
      (''support'', [''support material'', ''support'', ''supports''])]"

definition norm_key :: "string \<Rightarrow> string" where
  "norm_key s =
     collapse_ws (replace_char (CHR ''-'') (CHR '' '')
       (replace_char (CHR ''_'') (CHR '' '') (lower (strip s))))"

definition dict_get :: "('k \<times> 'v) list \<Rightarrow> 'k \<Rightarrow> 'v option" where
  \<comment> \<open>a dictionary filled by assignments in list order: the last assignment to a key stays\<close>
  "dict_get kvs k = map_of (rev kvs) k"

definition SYNONYM_TO_CANONICAL :: "(string \<times> string) list" where
  "SYNONYM_TO_CANONICAL =
     concat (map (\<lambda>(canon, syns). map (\<lambda>s. (lower (strip s), canon)) syns) FEATURE_SYNONYMS)"

definition NORM_TO_CANONICAL :: "(string \<times> string) list" where
  "NORM_TO_CANONICAL =
     concat (map (\<lambda>(canon, syns). map (\<lambda>s. (norm_key s, canon)) syns) FEATURE_SYNONYMS)"

definition match_canonical :: "string \<Rightarrow> string option" where
  "match_canonical type_value =
     (if type_value = [] then None
      else
        (let primary = strip (takeWhile (\<lambda>c. c \<notin> set '';|,'') type_value);
             key_exact = lower primary
         in case dict_get SYNONYM_TO_CANONICAL key_exact of
              Some canon \<Rightarrow>
                if canon \<noteq> [] then Some canon else dict_get NORM_TO_CANONICAL (norm_key primary)
            | None \<Rightarrow> dict_get NORM_TO_CANONICAL (norm_key primary)))"

section \<open>Configuration and processing state\<close>

text \<open>
  The arguments of \<open>process_gcode\<close>, with the two conversions \<open>float\<close> and \<open>int\<close> the code
  applies to matched tokens: \<open>None\<close> stands for \<open>ValueError\<close>, which every call site catches.
\<close>

record config =
  wait_temp :: bool
  skip_first_layers :: int
  flow_decimals :: nat
  feature_temps :: "string \<rightharpoonup> rat"
  feature_fans_pct :: "string \<rightharpoonup> rat"
  feature_flow :: "string \<rightharpoonup> rat"
  feature_gcode_enter :: "string \<rightharpoonup> string list"
  feature_gcode_exit :: "string \<rightharpoonup> string list"
  py_float :: "string \<Rightarrow> rat option"
  py_int :: "string \<Rightarrow> int option"

text \<open>
  The local variables of \<open>process_gcode\<close> that its closures and its main loop share.
  \<open>processed_line\<close> is one of them: the loop reads it before it assigns it.
\<close>

record state =
  out_lines :: "string list"
  current_temp :: "rat option"
  current_fan_pwm :: "int option"
  e_relative :: bool
  last_e_abs :: rat
  last_z :: "rat option"
  baseline_temp :: "rat option"
  baseline_fan_pwm :: "int option"
  prev_overrode_temp :: bool
  prev_overrode_fan :: bool
  prev_feature_canon :: "string option"
  current_feature_canon :: "string option"
  current_layer :: int
  processed_line :: string

definition cmd_temp :: "config \<Rightarrow> string" where
  "cmd_temp cfg = (if wait_temp cfg then ''M109'' else ''M104'')"

section \<open>Passive tracking and injection\<close>

definition track_extrusion_mode :: "config \<Rightarrow> state \<Rightarrow> string \<Rightarrow> state" where
  \<comment> \<open>the \<open>M82\<close> / \<open>M83\<close> / \<open>G92\<close> chain, written twice in the source (in \<open>insert_raw\<close> and
      in the main loop)\<close>
  "track_extrusion_mode cfg s t =
     (if M82_RE t then s\<lparr>e_relative := False\<rparr>
      else if M83_RE t then s\<lparr>e_relative := True\<rparr>
      else if G92_RE t then
        (case E_WORD_RE t of
           None \<Rightarrow> s
         | Some (i, tok) \<Rightarrow>
             (case py_float cfg tok of None \<Rightarrow> s | Some v \<Rightarrow> s\<lparr>last_e_abs := v\<rparr>))
      else s)"

definition track_temp_fan :: "config \<Rightarrow> state \<Rightarrow> string \<Rightarrow> state" where
  \<comment> \<open>the temperature / fan-off / fan-on chain, written twice in the source as well\<close>
  "track_temp_fan cfg s t =
     (case TEMP_CMD_RE t of
        Some tok \<Rightarrow>
          (case py_float cfg tok of None \<Rightarrow> s | Some v \<Rightarrow> s\<lparr>current_temp := Some v\<rparr>)
      | None \<Rightarrow>
          if FAN_OFF_RE t then s\<lparr>current_fan_pwm := Some 0\<rparr>
          else
            (case FAN_ON_RE t of
               None \<Rightarrow> s
             | Some tok \<Rightarrow>
                 (case py_int cfg tok of None \<Rightarrow> s | Some v \<Rightarrow> s\<lparr>current_fan_pwm := Some v\<rparr>)))"

definition insert_raw :: "config \<Rightarrow> state \<Rightarrow> string \<Rightarrow> state" where
  "insert_raw cfg s line =
     (let out = (if \<not> endswith_nl line then line @ [CHR 0x0A] else line);
          t = (if \<not> endswith_nl line then line else rstrip_chars (CHR 0x0A) line);
          s1 = s\<lparr>out_lines := out_lines s @ [out]\<rparr>
      in track_temp_fan cfg (track_extrusion_mode cfg s1 t) t)"

definition insert_temp :: "config \<Rightarrow> state \<Rightarrow> rat \<Rightarrow> string \<Rightarrow> state" where
  "insert_temp cfg s target reason =
     insert_raw cfg s (cmd_temp cfg @ '' S'' @ fmt_temp target @ '' ; set temp ('' @ reason @ '')'')"

definition insert_fan_pwm :: "config \<Rightarrow> state \<Rightarrow> int \<Rightarrow> string \<Rightarrow> state" where
  "insert_fan_pwm cfg s pwm reason =
     insert_raw cfg s
       (''M106 S'' @ str_int (clamp pwm 0 255) @ '' ; set fan ('' @ reason @ '')'')"

section \<open>Flow rewriting\<close>

definition apply_flow_to_line :: "config \<Rightarrow> state \<Rightarrow> string \<Rightarrow> rat option \<Rightarrow> string \<times> state" where
  "apply_flow_to_line cfg s line factor =
     (case factor of
        None \<Rightarrow> (line, s)
      | Some f \<Rightarrow>
          if \<bar>f - 1\<bar> < 1 / 10 ^ 12 then (line, s)
          else
            (let (code_part, sep, comment) = partition_semi line
             in if \<not> MOVE_RE code_part then (line, s)
                else
                  (case E_WORD_RE code_part of
                     None \<Rightarrow> (line, s)
                   | Some (start, tok) \<Rightarrow>
                       (case py_float cfg tok of
                          None \<Rightarrow> (line, s)
                        | Some e_val \<Rightarrow>
                            (let delta = (if e_relative s then e_val else e_val - last_e_abs s)
                             in if delta \<le> 0 then
                                  (line, if \<not> e_relative s then s\<lparr>last_e_abs := e_val\<rparr> else s)
                                else
                                  (let new_delta = delta * f;
                                       new_e = (if e_relative s then new_delta
                                                else last_e_abs s + new_delta);
                                       new_e_str = fmt_float new_e (flow_decimals cfg);
                                       code_new = take start code_part @ new_e_str
                                                  @ drop (start + length tok) code_part
                                   in (code_new @ (if sep \<noteq> [] then sep @ comment else []),
                                       if \<not> e_relative s then s\<lparr>last_e_abs := new_e\<rparr>
                                       else s)))))))"

section \<open>Layer tracking\<close>

definition bump_layer :: "int \<Rightarrow> int" where
  \<comment> \<open>\<open>(current_layer + 1) if current_layer >= 0 else 0\<close>\<close>
  "bump_layer l = (if 0 \<le> l then l + 1 else 0)"

definition update_layer_from_line :: "config \<Rightarrow> state \<Rightarrow> string \<Rightarrow> string \<Rightarrow> state" where
  "update_layer_from_line cfg s original_line processed =
     (case (case LAYER_NUM_RE original_line of
              Some tok \<Rightarrow> Some tok
            | None \<Rightarrow> LAYER_WORD_RE original_line) of
        Some tok \<Rightarrow>
          (case py_int cfg tok of None \<Rightarrow> s | Some n \<Rightarrow> s\<lparr>current_layer := n\<rparr>)
            \<lparr>current_feature_canon := None\<rparr>
      | None \<Rightarrow>
          if LAYER_CHANGE_RE original_line then
            s\<lparr>current_layer := bump_layer (current_layer s), current_feature_canon := None\<rparr>
          else
            (let code_part = code_part_of processed
             in if MOVE_RE code_part then
                  (case Z_WORD_RE code_part of
                     None \<Rightarrow> s
                   | Some (i, tok) \<Rightarrow>
                       (case py_float cfg tok of
                          None \<Rightarrow> s
                        | Some z_val \<Rightarrow>
                            (case last_z s of
                               None \<Rightarrow>
                                 s\<lparr>last_z := Some z_val,
                                   current_layer :=
                                     (if current_layer s < 0 then 0 else current_layer s)\<rparr>
                             | Some lz \<Rightarrow>
                                 (if lz + 1 / 10 ^ 6 < z_val then
                                    s\<lparr>current_layer :=
                                        (if current_layer s < 0 then 0 else current_layer s + 1),
                                      current_feature_canon := None\<rparr>
                                  else s)\<lparr>last_z := Some z_val\<rparr>)))
                else s))"

section \<open>The override state machine\<close>

definition dict_get_list :: "('k \<rightharpoonup> 'v list) \<Rightarrow> 'k \<Rightarrow> 'v list" where
  \<comment> \<open>\<open>d.get(k, [])\<close>\<close>
  "dict_get_list d k = (case d k of None \<Rightarrow> [] | Some l \<Rightarrow> l)"

definition prev_exit_gcodes :: "config \<Rightarrow> state \<Rightarrow> string list" where
  \<comment> \<open>\<open>feature_gcode_exit.get(prev_feature_canon, []) if prev_feature_canon else []\<close>\<close>
  "prev_exit_gcodes cfg s =
     (case prev_feature_canon s of
        None \<Rightarrow> []
      | Some p \<Rightarrow> if p = [] then [] else dict_get_list (feature_gcode_exit cfg) p)"

definition emit_exit :: "config \<Rightarrow> state \<Rightarrow> state" where
  "emit_exit cfg s =
     foldl (\<lambda>st gc. insert_raw cfg st
                       (gc @ '' ; exit '' @ (case prev_feature_canon s of None \<Rightarrow> [] | Some p \<Rightarrow> p)))
       s (prev_exit_gcodes cfg s)"

definition restore_temp :: "config \<Rightarrow> state \<Rightarrow> rat option \<Rightarrow> state" where
  "restore_temp cfg s new_temp =
     (case baseline_temp s of
        Some b \<Rightarrow>
          if prev_overrode_temp s \<and> new_temp = None then
            (insert_temp cfg s b ''restore baseline at feature boundary'')\<lparr>current_temp := Some b\<rparr>
          else s
      | None \<Rightarrow> s)"

definition restore_fan :: "config \<Rightarrow> state \<Rightarrow> int option \<Rightarrow> state" where
  "restore_fan cfg s new_fan_pwm =
     (case baseline_fan_pwm s of
        Some b \<Rightarrow>
          if prev_overrode_fan s \<and> new_fan_pwm = None then
            (insert_fan_pwm cfg s b ''restore baseline at feature boundary'')
              \<lparr>current_fan_pwm := Some b\<rparr>
          else s
      | None \<Rightarrow> s)"

definition snapshot_baseline :: "state \<Rightarrow> state" where
  "snapshot_baseline s =
     s\<lparr>baseline_temp := current_temp s, baseline_fan_pwm := current_fan_pwm s\<rparr>"

definition emit_enter :: "config \<Rightarrow> state \<Rightarrow> string \<Rightarrow> state" where
  "emit_enter cfg s canon =
     foldl (\<lambda>st gc. insert_raw cfg st (gc @ '' ; enter '' @ canon))
       s (dict_get_list (feature_gcode_enter cfg) canon)"

definition override_temp :: "config \<Rightarrow> state \<Rightarrow> string \<Rightarrow> rat option \<Rightarrow> state" where
  "override_temp cfg s canon new_temp =
     (case new_temp of
        Some t \<Rightarrow> (insert_temp cfg s t canon)\<lparr>current_temp := Some t, prev_overrode_temp := True\<rparr>
      | None \<Rightarrow> s\<lparr>prev_overrode_temp := False\<rparr>)"

definition override_fan :: "config \<Rightarrow> state \<Rightarrow> string \<Rightarrow> int option \<Rightarrow> state" where
  "override_fan cfg s canon new_fan_pwm =
     (case new_fan_pwm of
        Some f \<Rightarrow>
          (insert_fan_pwm cfg s f canon)\<lparr>current_fan_pwm := Some f, prev_overrode_fan := True\<rparr>
      | None \<Rightarrow> s\<lparr>prev_overrode_fan := False\<rparr>)"

definition enter_feature :: "config \<Rightarrow> state \<Rightarrow> string \<Rightarrow> state" where
  \<comment> \<open>the branch \<open>if not skip_active and canon\<close> of the main loop\<close>
  "enter_feature cfg s canon =
     (let new_temp = feature_temps cfg canon;
          new_fan_pwm = map_option pct_to_pwm (feature_fans_pct cfg canon);
          s1 = emit_exit cfg s;
          s2 = restore_temp cfg s1 new_temp;
          s3 = restore_fan cfg s2 new_fan_pwm;
          s4 = snapshot_baseline s3;
          s5 = emit_enter cfg s4 canon;
          s6 = override_temp cfg s5 canon new_temp;
          s7 = override_fan cfg s6 canon new_fan_pwm
      in s7\<lparr>prev_feature_canon := Some canon\<rparr>)"

definition feature_marker :: "config \<Rightarrow> state \<Rightarrow> bool \<Rightarrow> string \<Rightarrow> state" where
  \<comment> \<open>the body of \<open>if m_type\<close>, for the text the marker carries\<close>
  "feature_marker cfg s skip type_value =
     (let s1 = (if current_layer s < 0 then s\<lparr>current_layer := 0\<rparr> else s);
          canon = match_canonical type_value;
          s2 = s1\<lparr>current_feature_canon := canon\<rparr>
      in case canon of
           None \<Rightarrow> s2\<lparr>prev_feature_canon := None\<rparr>
         | Some c \<Rightarrow>
             if \<not> skip \<and> c \<noteq> [] then enter_feature cfg s2 c
             else s2\<lparr>prev_feature_canon := Some c\<rparr>)"

section \<open>The pass\<close>

definition skip_active :: "config \<Rightarrow> state \<Rightarrow> bool" where
  "skip_active cfg s =
     (0 < skip_first_layers cfg \<and> 0 \<le> current_layer s \<and> current_layer s < skip_first_layers cfg)"

definition flow_factor :: "config \<Rightarrow> state \<Rightarrow> bool \<Rightarrow> rat option" where
  \<comment> \<open>\<open>feature_flow.get(current_feature_canon) if (current_feature_canon and not skip_active)
      else None\<close>\<close>
  "flow_factor cfg s skip =
     (case current_feature_canon s of
        None \<Rightarrow> None
      | Some c \<Rightarrow> if c \<noteq> [] \<and> \<not> skip then feature_flow cfg c else None)"

definition rewrite_line :: "config \<Rightarrow> state \<Rightarrow> string \<Rightarrow> rat option \<Rightarrow> string \<times> state" where
  \<comment> \<open>\<open>apply_flow_to_line(line, factor) if factor is not None else line\<close>\<close>
  "rewrite_line cfg s line factor =
     (case factor of None \<Rightarrow> (line, s) | Some f \<Rightarrow> apply_flow_to_line cfg s line (Some f))"

definition process_line :: "config \<Rightarrow> state \<Rightarrow> string \<Rightarrow> state" where
  \<comment> \<open>one turn of the main loop\<close>
  "process_line cfg s line =
     (let s1 = update_layer_from_line cfg s line (processed_line s);
          skip = skip_active cfg s1;
          factor = flow_factor cfg s1 skip;
          (pl, s2) = rewrite_line cfg s1 line factor;
          s3 = s2\<lparr>processed_line := pl, out_lines := out_lines s2 @ [pl]\<rparr>
      in case TYPE_PREFIX_RE pl of
           Some type_value \<Rightarrow> feature_marker cfg s3 skip type_value
         | None \<Rightarrow>
             (let t = rstrip_chars (CHR 0x0A) pl;
                  s4 = track_temp_fan cfg (track_extrusion_mode cfg s3 t) t
              in update_layer_from_line cfg s4 line pl))"

definition reset_state :: "string \<Rightarrow> state" where
  \<comment> \<open>the assignments between the two loops; \<open>pl\<close> is what the first loop left in
      \<open>processed_line\<close>\<close>
  "reset_state pl =
     \<lparr>out_lines = [], current_temp = None, current_fan_pwm = None, e_relative = False,
      last_e_abs = 0, last_z = None, baseline_temp = None, baseline_fan_pwm = None,
      prev_overrode_temp = False, prev_overrode_fan = False, prev_feature_canon = None,
      current_feature_canon = None, current_layer = 0, processed_line = pl\<rparr>"

definition first_loop :: "string list \<Rightarrow> string" where
  \<comment> \<open>the first loop only assigns \<open>processed_line = line\<close>; on an empty document the variable
      stays unbound and is never read\<close>
  "first_loop lines = (if lines = [] then [] else last lines)"

definition run_pass :: "config \<Rightarrow> string list \<Rightarrow> state" where
  "run_pass cfg lines = foldl (process_line cfg) (reset_state (first_loop lines)) lines"

section \<open>Reading and writing the document\<close>

record world =
  files :: "string \<rightharpoonup> string list"
  log :: "string list"

definition process_gcode :: "config \<Rightarrow> string \<Rightarrow> world \<Rightarrow> nat \<times> world" where
  \<comment> \<open>the exit status and the world afterwards; a file is the sequence of lines
      \<open>readlines\<close> gives and \<open>writelines\<close> takes\<close>
  "process_gcode cfg input_file w =
     (case files w input_file of
        None \<Rightarrow> (1, w\<lparr>log := log w @ [''Input file not found: '' @ input_file]\<rparr>)
      | Some lines \<Rightarrow>
          (0, w\<lparr>files := (files w)(input_file \<mapsto> out_lines (run_pass cfg lines))\<rparr>))"

definition default_config :: config where
  \<comment> \<open>the defaults of \<open>process_gcode\<close>, with the conversions of decimal tokens\<close>
  "default_config =
     \<lparr>wait_temp = False, skip_first_layers = 0, flow_decimals = 5,
      feature_temps = Map.empty, feature_fans_pct = Map.empty, feature_flow = Map.empty,
      feature_gcode_enter = Map.empty, feature_gcode_exit = Map.empty,
      py_float = float_of_string, py_int = int_of_string\<rparr>"

section \<open>The text of injected lines\<close>

text \<open>
  Names for the lines the injection functions append: \<open>insert_raw\<close> appends its argument
  with a newline added when it has none, \<open>insert_temp\<close> and \<open>insert_fan_pwm\<close> build the
  command from the target and the reason.
\<close>

definition with_nl :: "string \<Rightarrow> string" where
  "with_nl line = (if endswith_nl line then line else line @ [CHR 0x0A])"

definition temp_line :: "config \<Rightarrow> rat \<Rightarrow> string \<Rightarrow> string" where
  "temp_line cfg t reason =
     with_nl (cmd_temp cfg @ '' S'' @ fmt_temp t @ '' ; set temp ('' @ reason @ '')'')"

definition fan_line :: "int \<Rightarrow> string \<Rightarrow> string" where
  "fan_line pwm reason =
     with_nl (''M106 S'' @ str_int (clamp pwm 0 255) @ '' ; set fan ('' @ reason @ '')'')"

definition boundary_lines :: "config \<Rightarrow> state \<Rightarrow> string \<Rightarrow> string list" where
  \<comment> \<open>the lines the branch \<open>if not skip_active and canon\<close> appends for the feature \<open>c\<close> when it
      starts in state \<open>s\<close>, in the order of the source: exit commands of the previous
      feature, restores, enter commands, overrides\<close>
  "boundary_lines cfg s c =
     map (\<lambda>gc. with_nl (gc @ '' ; exit '' @ (case prev_feature_canon s of None \<Rightarrow> [] | Some p \<Rightarrow> p)))
         (prev_exit_gcodes cfg s)
     @ (case baseline_temp s of
          Some b \<Rightarrow> if prev_overrode_temp s \<and> feature_temps cfg c = None
                    then [temp_line cfg b ''restore baseline at feature boundary''] else []
        | None \<Rightarrow> [])
     @ (case baseline_fan_pwm s of
          Some b \<Rightarrow> if prev_overrode_fan s \<and> feature_fans_pct cfg c = None
                    then [fan_line b ''restore baseline at feature boundary''] else []
        | None \<Rightarrow> [])
     @ map (\<lambda>gc. with_nl (gc @ '' ; enter '' @ c)) (dict_get_list (feature_gcode_enter cfg) c)
     @ (case feature_temps cfg c of Some t \<Rightarrow> [temp_line cfg t c] | None \<Rightarrow> [])
     @ (case feature_fans_pct cfg c of Some p \<Rightarrow> [fan_line (pct_to_pwm p) c] | None \<Rightarrow> [])"

section \<open>Example configurations\<close>

definition bridge_temp_config :: config where
  \<comment> \<open>only the feature \<open>bridge\<close> has a temperature\<close>
  "bridge_temp_config = default_config\<lparr>feature_temps := [''bridge'' \<mapsto> 210]\<rparr>"

definition skip_one_config :: config where
  \<comment> \<open>one layer to skip, \<open>infill\<close> has a temperature\<close>
  "skip_one_config =
     default_config\<lparr>skip_first_layers := 1, feature_temps := [''infill'' \<mapsto> 200]\<rparr>"

(*DEFS_END*)

section \<open>What each operation appends and which variables it leaves alone\<close>

lemma track_extrusion_mode_frame [simp]:
  "out_lines (track_extrusion_mode cfg s t) = out_lines s"
  "current_temp (track_extrusion_mode cfg s t) = current_temp s"
  "current_fan_pwm (track_extrusion_mode cfg s t) = current_fan_pwm s"
  "last_z (track_extrusion_mode cfg s t) = last_z s"
  "baseline_temp (track_extrusion_mode cfg s t) = baseline_temp s"
  "baseline_fan_pwm (track_extrusion_mode cfg s t) = baseline_fan_pwm s"
  "prev_overrode_temp (track_extrusion_mode cfg s t) = prev_overrode_temp s"
  "prev_overrode_fan (track_extrusion_mode cfg s t) = prev_overrode_fan s"
  "prev_feature_canon (track_extrusion_mode cfg s t) = prev_feature_canon s"
  "current_feature_canon (track_extrusion_mode cfg s t) = current_feature_canon s"
  "current_layer (track_extrusion_mode cfg s t) = current_layer s"
  "processed_line (track_extrusion_mode cfg s t) = processed_line s"
  by (simp_all add: track_extrusion_mode_def split: option.splits prod.splits)

lemma track_temp_fan_frame [simp]:
  "out_lines (track_temp_fan cfg s t) = out_lines s"
  "e_relative (track_temp_fan cfg s t) = e_relative s"
  "last_e_abs (track_temp_fan cfg s t) = last_e_abs s"
  "last_z (track_temp_fan cfg s t) = last_z s"
  "baseline_temp (track_temp_fan cfg s t) = baseline_temp s"
  "baseline_fan_pwm (track_temp_fan cfg s t) = baseline_fan_pwm s"
  "prev_overrode_temp (track_temp_fan cfg s t) = prev_overrode_temp s"
  "prev_overrode_fan (track_temp_fan cfg s t) = prev_overrode_fan s"
  "prev_feature_canon (track_temp_fan cfg s t) = prev_feature_canon s"
  "current_feature_canon (track_temp_fan cfg s t) = current_feature_canon s"
  "current_layer (track_temp_fan cfg s t) = current_layer s"
  "processed_line (track_temp_fan cfg s t) = processed_line s"
  by (simp_all add: track_temp_fan_def split: option.splits prod.splits)

lemma insert_raw_frame [simp]:
  "out_lines (insert_raw cfg s l) = out_lines s @ [with_nl l]"
  "last_z (insert_raw cfg s l) = last_z s"
  "baseline_temp (insert_raw cfg s l) = baseline_temp s"
  "baseline_fan_pwm (insert_raw cfg s l) = baseline_fan_pwm s"
  "prev_overrode_temp (insert_raw cfg s l) = prev_overrode_temp s"
  "prev_overrode_fan (insert_raw cfg s l) = prev_overrode_fan s"
  "prev_feature_canon (insert_raw cfg s l) = prev_feature_canon s"
  "current_feature_canon (insert_raw cfg s l) = current_feature_canon s"
  "current_layer (insert_raw cfg s l) = current_layer s"
  "processed_line (insert_raw cfg s l) = processed_line s"
  by (simp_all add: insert_raw_def with_nl_def Let_def)

lemma insert_all_frame [simp]:
  "out_lines (foldl (\<lambda>st gc. insert_raw cfg st (g gc)) s gcs) = out_lines s @ map (\<lambda>gc. with_nl (g gc)) gcs"
  "last_z (foldl (\<lambda>st gc. insert_raw cfg st (g gc)) s gcs) = last_z s"
  "baseline_temp (foldl (\<lambda>st gc. insert_raw cfg st (g gc)) s gcs) = baseline_temp s"
  "baseline_fan_pwm (foldl (\<lambda>st gc. insert_raw cfg st (g gc)) s gcs) = baseline_fan_pwm s"
  "prev_overrode_temp (foldl (\<lambda>st gc. insert_raw cfg st (g gc)) s gcs) = prev_overrode_temp s"
  "prev_overrode_fan (foldl (\<lambda>st gc. insert_raw cfg st (g gc)) s gcs) = prev_overrode_fan s"
  "prev_feature_canon (foldl (\<lambda>st gc. insert_raw cfg st (g gc)) s gcs) = prev_feature_canon s"
  "current_feature_canon (foldl (\<lambda>st gc. insert_raw cfg st (g gc)) s gcs) = current_feature_canon s"
  "current_layer (foldl (\<lambda>st gc. insert_raw cfg st (g gc)) s gcs) = current_layer s"
  "processed_line (foldl (\<lambda>st gc. insert_raw cfg st (g gc)) s gcs) = processed_line s"
  by (induction gcs arbitrary: s; simp)+

lemma insert_temp_frame [simp]:
  "out_lines (insert_temp cfg s t r) = out_lines s @ [temp_line cfg t r]"
  "last_z (insert_temp cfg s t r) = last_z s"
  "baseline_temp (insert_temp cfg s t r) = baseline_temp s"
  "baseline_fan_pwm (insert_temp cfg s t r) = baseline_fan_pwm s"
  "prev_overrode_temp (insert_temp cfg s t r) = prev_overrode_temp s"
  "prev_overrode_fan (insert_temp cfg s t r) = prev_overrode_fan s"
  "prev_feature_canon (insert_temp cfg s t r) = prev_feature_canon s"
  "current_feature_canon (insert_temp cfg s t r) = current_feature_canon s"
  "current_layer (insert_temp cfg s t r) = current_layer s"
  "processed_line (insert_temp cfg s t r) = processed_line s"
  by (simp_all add: insert_temp_def temp_line_def)

lemma insert_fan_pwm_frame [simp]:
  "out_lines (insert_fan_pwm cfg s f r) = out_lines s @ [fan_line f r]"
  "last_z (insert_fan_pwm cfg s f r) = last_z s"
  "baseline_temp (insert_fan_pwm cfg s f r) = baseline_temp s"
  "baseline_fan_pwm (insert_fan_pwm cfg s f r) = baseline_fan_pwm s"
  "prev_overrode_temp (insert_fan_pwm cfg s f r) = prev_overrode_temp s"
  "prev_overrode_fan (insert_fan_pwm cfg s f r) = prev_overrode_fan s"
  "prev_feature_canon (insert_fan_pwm cfg s f r) = prev_feature_canon s"
  "current_feature_canon (insert_fan_pwm cfg s f r) = current_feature_canon s"
  "current_layer (insert_fan_pwm cfg s f r) = current_layer s"
  "processed_line (insert_fan_pwm cfg s f r) = processed_line s"
  by (simp_all add: insert_fan_pwm_def fan_line_def)

lemma emit_exit_frame [simp]:
  "out_lines (emit_exit cfg s) =
     out_lines s @ map (\<lambda>gc. with_nl (gc @ '' ; exit '' @ (case prev_feature_canon s of None \<Rightarrow> [] | Some p \<Rightarrow> p)))
                       (prev_exit_gcodes cfg s)"
  "last_z (emit_exit cfg s) = last_z s"
  "baseline_temp (emit_exit cfg s) = baseline_temp s"
  "baseline_fan_pwm (emit_exit cfg s) = baseline_fan_pwm s"
  "prev_overrode_temp (emit_exit cfg s) = prev_overrode_temp s"
  "prev_overrode_fan (emit_exit cfg s) = prev_overrode_fan s"
  "prev_feature_canon (emit_exit cfg s) = prev_feature_canon s"
  "current_feature_canon (emit_exit cfg s) = current_feature_canon s"
  "current_layer (emit_exit cfg s) = current_layer s"
  "processed_line (emit_exit cfg s) = processed_line s"
  by (simp_all add: emit_exit_def)

lemma emit_enter_frame [simp]:
  "out_lines (emit_enter cfg s c) =
     out_lines s @ map (\<lambda>gc. with_nl (gc @ '' ; enter '' @ c)) (dict_get_list (feature_gcode_enter cfg) c)"
  "last_z (emit_enter cfg s c) = last_z s"
  "baseline_temp (emit_enter cfg s c) = baseline_temp s"
  "baseline_fan_pwm (emit_enter cfg s c) = baseline_fan_pwm s"
  "prev_overrode_temp (emit_enter cfg s c) = prev_overrode_temp s"
  "prev_overrode_fan (emit_enter cfg s c) = prev_overrode_fan s"
  "prev_feature_canon (emit_enter cfg s c) = prev_feature_canon s"
  "current_feature_canon (emit_enter cfg s c) = current_feature_canon s"
  "current_layer (emit_enter cfg s c) = current_layer s"
  "processed_line (emit_enter cfg s c) = processed_line s"
  by (simp_all add: emit_enter_def)

lemma restore_temp_frame [simp]:
  "out_lines (restore_temp cfg s nt) =
     out_lines s @ (case baseline_temp s of
                      Some b \<Rightarrow> if prev_overrode_temp s \<and> nt = None
                                then [temp_line cfg b ''restore baseline at feature boundary''] else []
                    | None \<Rightarrow> [])"
  "current_temp (restore_temp cfg s nt) =
     (case baseline_temp s of
        Some b \<Rightarrow> if prev_overrode_temp s \<and> nt = None then Some b else current_temp s
      | None \<Rightarrow> current_temp s)"
  "last_z (restore_temp cfg s nt) = last_z s"
  "baseline_temp (restore_temp cfg s nt) = baseline_temp s"
  "baseline_fan_pwm (restore_temp cfg s nt) = baseline_fan_pwm s"
  "prev_overrode_temp (restore_temp cfg s nt) = prev_overrode_temp s"
  "prev_overrode_fan (restore_temp cfg s nt) = prev_overrode_fan s"
  "prev_feature_canon (restore_temp cfg s nt) = prev_feature_canon s"
  "current_feature_canon (restore_temp cfg s nt) = current_feature_canon s"
  "current_layer (restore_temp cfg s nt) = current_layer s"
  "processed_line (restore_temp cfg s nt) = processed_line s"
  by (auto simp: restore_temp_def split: option.splits)

lemma restore_fan_frame [simp]:
  "out_lines (restore_fan cfg s nf) =
     out_lines s @ (case baseline_fan_pwm s of
                      Some b \<Rightarrow> if prev_overrode_fan s \<and> nf = None
                                then [fan_line b ''restore baseline at feature boundary''] else []
                    | None \<Rightarrow> [])"
  "current_fan_pwm (restore_fan cfg s nf) =
     (case baseline_fan_pwm s of
        Some b \<Rightarrow> if prev_overrode_fan s \<and> nf = None then Some b else current_fan_pwm s
      | None \<Rightarrow> current_fan_pwm s)"
  "last_z (restore_fan cfg s nf) = last_z s"
  "baseline_temp (restore_fan cfg s nf) = baseline_temp s"
  "baseline_fan_pwm (restore_fan cfg s nf) = baseline_fan_pwm s"
  "prev_overrode_temp (restore_fan cfg s nf) = prev_overrode_temp s"
  "prev_overrode_fan (restore_fan cfg s nf) = prev_overrode_fan s"
  "prev_feature_canon (restore_fan cfg s nf) = prev_feature_canon s"
  "current_feature_canon (restore_fan cfg s nf) = current_feature_canon s"
  "current_layer (restore_fan cfg s nf) = current_layer s"
  "processed_line (restore_fan cfg s nf) = processed_line s"
  by (auto simp: restore_fan_def split: option.splits)

lemma override_temp_frame [simp]:
  "out_lines (override_temp cfg s c nt) =
     out_lines s @ (case nt of Some t \<Rightarrow> [temp_line cfg t c] | None \<Rightarrow> [])"
  "current_temp (override_temp cfg s c nt) = (case nt of Some t \<Rightarrow> Some t | None \<Rightarrow> current_temp s)"
  "prev_overrode_temp (override_temp cfg s c nt) = (nt \<noteq> None)"
  "last_z (override_temp cfg s c nt) = last_z s"
  "baseline_temp (override_temp cfg s c nt) = baseline_temp s"
  "baseline_fan_pwm (override_temp cfg s c nt) = baseline_fan_pwm s"
  "prev_overrode_fan (override_temp cfg s c nt) = prev_overrode_fan s"
  "prev_feature_canon (override_temp cfg s c nt) = prev_feature_canon s"
  "current_feature_canon (override_temp cfg s c nt) = current_feature_canon s"
  "current_layer (override_temp cfg s c nt) = current_layer s"
  "processed_line (override_temp cfg s c nt) = processed_line s"
  by (simp_all add: override_temp_def split: option.splits)

lemma override_fan_frame [simp]:
  "out_lines (override_fan cfg s c nf) =
     out_lines s @ (case nf of Some f \<Rightarrow> [fan_line f c] | None \<Rightarrow> [])"
  "current_fan_pwm (override_fan cfg s c nf) = (case nf of Some f \<Rightarrow> Some f | None \<Rightarrow> current_fan_pwm s)"
  "prev_overrode_fan (override_fan cfg s c nf) = (nf \<noteq> None)"
  "last_z (override_fan cfg s c nf) = last_z s"
  "baseline_temp (override_fan cfg s c nf) = baseline_temp s"
  "baseline_fan_pwm (override_fan cfg s c nf) = baseline_fan_pwm s"
  "prev_overrode_temp (override_fan cfg s c nf) = prev_overrode_temp s"
  "prev_feature_canon (override_fan cfg s c nf) = prev_feature_canon s"
  "current_feature_canon (override_fan cfg s c nf) = current_feature_canon s"
  "current_layer (override_fan cfg s c nf) = current_layer s"
  "processed_line (override_fan cfg s c nf) = processed_line s"
  by (simp_all add: override_fan_def split: option.splits)

lemma snapshot_baseline_frame [simp]:
  "out_lines (snapshot_baseline s) = out_lines s"
  "baseline_temp (snapshot_baseline s) = current_temp s"
  "baseline_fan_pwm (snapshot_baseline s) = current_fan_pwm s"
  "current_temp (snapshot_baseline s) = current_temp s"
  "current_fan_pwm (snapshot_baseline s) = current_fan_pwm s"
  "last_z (snapshot_baseline s) = last_z s"
  "prev_overrode_temp (snapshot_baseline s) = prev_overrode_temp s"
  "prev_overrode_fan (snapshot_baseline s) = prev_overrode_fan s"
  "prev_feature_canon (snapshot_baseline s) = prev_feature_canon s"
  "current_feature_canon (snapshot_baseline s) = current_feature_canon s"
  "current_layer (snapshot_baseline s) = current_layer s"
  "processed_line (snapshot_baseline s) = processed_line s"
  by (simp_all add: snapshot_baseline_def)

lemma update_layer_frame [simp]:
  "out_lines (update_layer_from_line cfg s l p) = out_lines s"
  "current_temp (update_layer_from_line cfg s l p) = current_temp s"
  "current_fan_pwm (update_layer_from_line cfg s l p) = current_fan_pwm s"
  "e_relative (update_layer_from_line cfg s l p) = e_relative s"
  "last_e_abs (update_layer_from_line cfg s l p) = last_e_abs s"
  "baseline_temp (update_layer_from_line cfg s l p) = baseline_temp s"
  "baseline_fan_pwm (update_layer_from_line cfg s l p) = baseline_fan_pwm s"
  "prev_overrode_temp (update_layer_from_line cfg s l p) = prev_overrode_temp s"
  "prev_overrode_fan (update_layer_from_line cfg s l p) = prev_overrode_fan s"
  "prev_feature_canon (update_layer_from_line cfg s l p) = prev_feature_canon s"
  "processed_line (update_layer_from_line cfg s l p) = processed_line s"
  by (simp_all add: update_layer_from_line_def Let_def split: option.splits prod.splits)

lemma apply_flow_frame [simp]:
  "out_lines (snd (apply_flow_to_line cfg s l f)) = out_lines s"
  "current_temp (snd (apply_flow_to_line cfg s l f)) = current_temp s"
  "current_fan_pwm (snd (apply_flow_to_line cfg s l f)) = current_fan_pwm s"
  "e_relative (snd (apply_flow_to_line cfg s l f)) = e_relative s"
  "last_z (snd (apply_flow_to_line cfg s l f)) = last_z s"
  "baseline_temp (snd (apply_flow_to_line cfg s l f)) = baseline_temp s"
  "baseline_fan_pwm (snd (apply_flow_to_line cfg s l f)) = baseline_fan_pwm s"
  "prev_overrode_temp (snd (apply_flow_to_line cfg s l f)) = prev_overrode_temp s"
  "prev_overrode_fan (snd (apply_flow_to_line cfg s l f)) = prev_overrode_fan s"
  "prev_feature_canon (snd (apply_flow_to_line cfg s l f)) = prev_feature_canon s"
  "current_feature_canon (snd (apply_flow_to_line cfg s l f)) = current_feature_canon s"
  "current_layer (snd (apply_flow_to_line cfg s l f)) = current_layer s"
  "processed_line (snd (apply_flow_to_line cfg s l f)) = processed_line s"
  by (simp_all add: apply_flow_to_line_def Let_def split: option.splits prod.splits)

lemma rewrite_line_frame [simp]:
  "out_lines (snd (rewrite_line cfg s l f)) = out_lines s"
  "current_temp (snd (rewrite_line cfg s l f)) = current_temp s"
  "current_fan_pwm (snd (rewrite_line cfg s l f)) = current_fan_pwm s"
  "e_relative (snd (rewrite_line cfg s l f)) = e_relative s"
  "last_z (snd (rewrite_line cfg s l f)) = last_z s"
  "baseline_temp (snd (rewrite_line cfg s l f)) = baseline_temp s"
  "baseline_fan_pwm (snd (rewrite_line cfg s l f)) = baseline_fan_pwm s"
  "prev_overrode_temp (snd (rewrite_line cfg s l f)) = prev_overrode_temp s"
  "prev_overrode_fan (snd (rewrite_line cfg s l f)) = prev_overrode_fan s"
  "prev_feature_canon (snd (rewrite_line cfg s l f)) = prev_feature_canon s"
  "current_feature_canon (snd (rewrite_line cfg s l f)) = current_feature_canon s"
  "current_layer (snd (rewrite_line cfg s l f)) = current_layer s"
  "processed_line (snd (rewrite_line cfg s l f)) = processed_line s"
  by (simp_all add: rewrite_line_def split: option.splits)

lemma is_space_semi [simp]: "\<not> is_space (CHR '';'')"
  by (simp add: is_space_def)

lemma lower_char_semi: "lower_char c = lower_char (CHR '';'') \<longleftrightarrow> c = CHR '';''"
  by (auto simp: lower_char_def split: if_splits)

lemma ci_prefix_semi: "ci_prefix '';'' t \<longleftrightarrow> (\<exists>r. t = CHR '';'' # r)"
  by (cases t) (auto simp: ci_prefix_def lower_def lower_char_semi)

lemma type_marker_semi: "TYPE_PREFIX_RE l = Some tv \<Longrightarrow> ci_prefix '';'' (lstrip l)"
  by (simp add: TYPE_PREFIX_RE_def Let_def split: if_splits)

lemma semi_code_part_blank: "ci_prefix '';'' (lstrip l) \<Longrightarrow> lstrip (code_part_of l) = []"
proof (induction l)
  case Nil
  then show ?case by (simp add: ci_prefix_semi lstrip_def)
next
  case (Cons c cs)
  show ?case
  proof (cases "is_space c")
    case True
    then have "c \<noteq> CHR '';''" by auto
    with True Cons show ?thesis
      by (simp add: lstrip_def code_part_of_def partition_semi_def Let_def split: list.splits)
  next
    case False
    with Cons.prems have "c = CHR '';''" by (simp add: lstrip_def ci_prefix_semi)
    then show ?thesis
      by (simp add: lstrip_def code_part_of_def partition_semi_def)
  qed
qed

lemma blank_not_move: "lstrip cp = [] \<Longrightarrow> \<not> MOVE_RE cp"
  by (simp add: MOVE_RE_def cmd_match_def ci_prefix_def)

lemma type_marker_not_move: "TYPE_PREFIX_RE l = Some tv \<Longrightarrow> \<not> MOVE_RE (code_part_of l)"
  by (rule blank_not_move, rule semi_code_part_blank, rule type_marker_semi)

lemma not_move_no_flow: "\<not> MOVE_RE (code_part_of l) \<Longrightarrow> apply_flow_to_line cfg s l f = (l, s)"
  by (auto simp: apply_flow_to_line_def code_part_of_def split: option.splits prod.splits)

lemma not_move_no_rewrite: "\<not> MOVE_RE (code_part_of l) \<Longrightarrow> rewrite_line cfg s l f = (l, s)"
  by (simp add: rewrite_line_def not_move_no_flow split: option.splits)

lemma enter_feature_out:
  "out_lines (enter_feature cfg s c) = out_lines s @ boundary_lines cfg s c"
  by (simp add: enter_feature_def boundary_lines_def Let_def prev_exit_gcodes_def
           split: option.splits)

lemma enter_feature_frame [simp]:
  "last_z (enter_feature cfg s c) = last_z s"
  "prev_feature_canon (enter_feature cfg s c) = Some c"
  "current_feature_canon (enter_feature cfg s c) = current_feature_canon s"
  "current_layer (enter_feature cfg s c) = current_layer s"
  "processed_line (enter_feature cfg s c) = processed_line s"
  by (simp_all add: enter_feature_def Let_def)

lemma boundary_lines_frame [simp]:
  "boundary_lines cfg (s\<lparr>current_layer := n\<rparr>) c = boundary_lines cfg s c"
  "boundary_lines cfg (s\<lparr>current_feature_canon := f\<rparr>) c = boundary_lines cfg s c"
  "boundary_lines cfg (s\<lparr>processed_line := p\<rparr>) c = boundary_lines cfg s c"
  "boundary_lines cfg (s\<lparr>out_lines := out\<rparr>) c = boundary_lines cfg s c"
  "boundary_lines cfg (update_layer_from_line cfg s l p) c = boundary_lines cfg s c"
  by (simp_all add: boundary_lines_def prev_exit_gcodes_def cong: option.case_cong)

lemma feature_marker_out:
  "out_lines (feature_marker cfg s skip tv) =
     out_lines s @ (case match_canonical tv of
                      Some c \<Rightarrow> if \<not> skip \<and> c \<noteq> [] then boundary_lines cfg s c else []
                    | None \<Rightarrow> [])"
  by (simp add: feature_marker_def Let_def enter_feature_out split: option.splits)

lemma feature_marker_prev:
  "prev_feature_canon (feature_marker cfg s skip tv) = match_canonical tv"
  by (simp add: feature_marker_def Let_def split: option.splits)

lemma process_line_marker:
  assumes "TYPE_PREFIX_RE l = Some tv"
  shows "process_line cfg s l =
           feature_marker cfg
             ((update_layer_from_line cfg s l (processed_line s))
                \<lparr>processed_line := l, out_lines := out_lines s @ [l]\<rparr>)
             (skip_active cfg (update_layer_from_line cfg s l (processed_line s))) tv"
  using assms
  by (simp add: process_line_def Let_def not_move_no_rewrite [OF type_marker_not_move [OF assms]])

lemma skip_no_rewrite:
  "rewrite_line cfg s l (flow_factor cfg s True) = (l, s)"
  by (simp add: rewrite_line_def flow_factor_def split: option.splits)

(*LEMMAS_END*)

section \<open>Reading and writing: the exit status\<close>

text \<open>
  C9. If the input file does not exist, the error is reported, the process ends with a
  status that is not zero and no file is written; if it exists, the whole pass runs first,
  then the same file is overwritten with the lines of the pass, no other file changes, and
  the status is zero.
\<close>

theorem process_gcode_exit_behaviour:
  "(files w input_file = None \<longrightarrow>
      fst (process_gcode cfg input_file w) \<noteq> 0
      \<and> files (snd (process_gcode cfg input_file w)) = files w
      \<and> log (snd (process_gcode cfg input_file w))
          = log w @ [''Input file not found: '' @ input_file])
   \<and> (files w input_file = Some lines \<longrightarrow>
      fst (process_gcode cfg input_file w) = 0
      \<and> files (snd (process_gcode cfg input_file w)) input_file
          = Some (out_lines (run_pass cfg lines))
      \<and> (\<forall>other. other \<noteq> input_file \<longrightarrow>
             files (snd (process_gcode cfg input_file w)) other = files w other)
      \<and> log (snd (process_gcode cfg input_file w)) = log w)"
  by (simp add: process_gcode_def)

theorem process_gcode_exit_behaviour_witness:
  "fst (process_gcode default_config ''a.gcode'' \<lparr>files = Map.empty, log = []\<rparr>) \<noteq> 0
   \<and> files (snd (process_gcode default_config ''a.gcode'' \<lparr>files = Map.empty, log = []\<rparr>))
       = Map.empty
   \<and> fst (process_gcode default_config ''a.gcode''
             \<lparr>files = [''a.gcode'' \<mapsto> [''G1 X1\<newline>'']], log = []\<rparr>) = 0
   \<and> files (snd (process_gcode default_config ''a.gcode''
                    \<lparr>files = [''a.gcode'' \<mapsto> [''G1 X1\<newline>'']], log = []\<rparr>)) ''a.gcode''
       = Some (out_lines (run_pass default_config [''G1 X1\<newline>'']))"
  using process_gcode_exit_behaviour
          [of "\<lparr>files = Map.empty, log = []\<rparr>" "''a.gcode''" default_config "[]"]
        process_gcode_exit_behaviour
          [of "\<lparr>files = [''a.gcode'' \<mapsto> [''G1 X1\<newline>'']], log = []\<rparr>" "''a.gcode''"
              default_config "[''G1 X1\<newline>'']"]
  by simp

section \<open>The layer counter at the start of the pass\<close>

text \<open>
  C4. The claim expects the counter to hold the sentinel \<open>-1\<close> until a layer signal fires.
  The assignments between the two loops set it to \<open>0\<close>: the pass starts at layer \<open>0\<close>, and a
  document without any layer signal (no layer marker, no motion line, no feature marker)
  ends at layer \<open>0\<close>.
\<close>

theorem pass_starts_at_layer_zero:
  "current_layer (reset_state pl) = 0
   \<and> current_layer (run_pass default_config [''M104 S200\<newline>'']) = 0"
  by (rule conjI, simp add: reset_state_def, code_simp)

section \<open>Where the injected lines go\<close>

text \<open>
  C3 (as amended). For every line that is a feature-type marker, the marker line itself is
  appended to the output unchanged, and the lines injected for it (exit commands of the
  previous feature, baseline restores, enter commands of the new feature, temperature and
  fan overrides, in that order) come as one block directly after it; the block is empty
  when the marker is not recognised or the layer is in the skip span.
\<close>

theorem marker_then_block:
  assumes "TYPE_PREFIX_RE l = Some tv"
  shows "out_lines (process_line cfg s l) =
           out_lines s @ l #
             (case match_canonical tv of
                Some c \<Rightarrow>
                  if \<not> skip_active cfg (update_layer_from_line cfg s l (processed_line s)) \<and> c \<noteq> []
                  then boundary_lines cfg s c else []
              | None \<Rightarrow> [])"
  by (simp add: process_line_marker [OF assms] feature_marker_out split: option.splits)

theorem marker_then_block_witness:
  "TYPE_PREFIX_RE ''; TYPE: bridge\<newline>'' = Some ''bridge''
   \<and> out_lines (process_line bridge_temp_config (reset_state []) ''; TYPE: bridge\<newline>'') =
       out_lines (reset_state []) @ ''; TYPE: bridge\<newline>'' #
         (case match_canonical ''bridge'' of
            Some c \<Rightarrow>
              if \<not> skip_active bridge_temp_config
                     (update_layer_from_line bridge_temp_config (reset_state [])
                        ''; TYPE: bridge\<newline>'' (processed_line (reset_state [])))
                 \<and> c \<noteq> []
              then boundary_lines bridge_temp_config (reset_state []) c else []
          | None \<Rightarrow> [])"
proof -
  have h: "TYPE_PREFIX_RE ''; TYPE: bridge\<newline>'' = Some ''bridge''"
    by code_simp
  show ?thesis
    by (rule conjI [OF h marker_then_block [OF h]])
qed

text \<open>
  The claim as stated puts the block before the marker. On the one-line document
  \<open>; TYPE: bridge\<close> with a bridge temperature of 210 the output is the marker first and
  the injected temperature command second.
\<close>

theorem block_before_marker_counterexample:
  "out_lines (run_pass bridge_temp_config [''; TYPE: bridge\<newline>''])
     = [''; TYPE: bridge\<newline>'', ''M104 S210 ; set temp (bridge)\<newline>'']
   \<and> out_lines (run_pass bridge_temp_config [''; TYPE: bridge\<newline>''])
     \<noteq> [''M104 S210 ; set temp (bridge)\<newline>'', ''; TYPE: bridge\<newline>'']"
proof -
  have e: "out_lines (run_pass bridge_temp_config [''; TYPE: bridge\<newline>''])
             = [''; TYPE: bridge\<newline>'', ''M104 S210 ; set temp (bridge)\<newline>'']"
    by code_simp
  show ?thesis
    unfolding e by simp
qed

section \<open>The skip span\<close>

text \<open>
  C7 (as amended). With \<open>skip_first_layers = N > 0\<close>, a line that is processed while
  \<open>0 \<le> current_layer < N\<close> (the layer as the top of the loop has updated it for that line)
  adds exactly itself to the output, byte for byte: no temperature, fan or custom command
  is injected and no extrusion value is rewritten.
\<close>

theorem skip_span_untouched:
  assumes "0 < skip_first_layers cfg"
    and "0 \<le> current_layer (update_layer_from_line cfg s l (processed_line s))"
    and "current_layer (update_layer_from_line cfg s l (processed_line s)) < skip_first_layers cfg"
  shows "out_lines (process_line cfg s l) = out_lines s @ [l]"
proof -
  have sk: "skip_active cfg (update_layer_from_line cfg s l (processed_line s))"
    using assms by (simp add: skip_active_def)
  show ?thesis
    by (simp add: process_line_def Let_def sk skip_no_rewrite feature_marker_out
             split: option.splits)
qed

theorem skip_span_untouched_witness:
  "0 < skip_first_layers skip_one_config
   \<and> 0 \<le> current_layer (update_layer_from_line skip_one_config (reset_state [])
                           '';TYPE:infill\<newline>'' (processed_line (reset_state [])))
   \<and> current_layer (update_layer_from_line skip_one_config (reset_state [])
                       '';TYPE:infill\<newline>'' (processed_line (reset_state [])))
       < skip_first_layers skip_one_config
   \<and> out_lines (process_line skip_one_config (reset_state []) '';TYPE:infill\<newline>'')
       = out_lines (reset_state []) @ ['';TYPE:infill\<newline>'']"
proof -
  have h1: "0 < skip_first_layers skip_one_config"
    by (simp add: skip_one_config_def)
  have h2: "0 \<le> current_layer (update_layer_from_line skip_one_config (reset_state [])
                                '';TYPE:infill\<newline>'' (processed_line (reset_state [])))"
    by code_simp
  have h3: "current_layer (update_layer_from_line skip_one_config (reset_state [])
                             '';TYPE:infill\<newline>'' (processed_line (reset_state [])))
              < skip_first_layers skip_one_config"
    by code_simp
  show ?thesis
    using h1 h2 h3 skip_span_untouched [OF h1 h2 h3] by blast
qed

text \<open>
  The claim as stated covers every layer below \<open>N\<close>. After the marker \<open>;LAYER:-1\<close> the
  layer is \<open>-1\<close>, below \<open>N = 1\<close>, and the feature marker that follows is processed at that
  layer, yet its temperature command is injected.
\<close>

theorem skip_negative_layer_counterexample:
  "current_layer
     (update_layer_from_line skip_one_config
        (process_line skip_one_config (reset_state '';TYPE:infill\<newline>'') '';LAYER:-1\<newline>'')
        '';TYPE:infill\<newline>'' '';LAYER:-1\<newline>'') = - 1
   \<and> - 1 < skip_first_layers skip_one_config
   \<and> out_lines (run_pass skip_one_config ['';LAYER:-1\<newline>'', '';TYPE:infill\<newline>''])
       = ['';LAYER:-1\<newline>'', '';TYPE:infill\<newline>'', ''M104 S200 ; set temp (infill)\<newline>'']"
  by (intro conjI; code_simp)

end
